theory Spec2Isabelle
  imports Complex_Main
begin

section \<open>Values and exceptions of the Python program\<close>

text \<open>
  The program (\<^verbatim>\<open>src/main.py\<close>) resolves a search query into a list of image URLs
  (\<^verbatim>\<open>fetch_image_urls\<close>), downloads them one by one with a retry loop
  (\<^verbatim>\<open>download_image\<close>, \<^verbatim>\<open>download_images\<close>) and maps the outcome to an exit code
  (\<^verbatim>\<open>main\<close>).

  The embedding follows one rule for the library calls of the source. A call that the source
  wraps in \<^verbatim>\<open>try\<close> (the page fetch and rendering, \<^verbatim>\<open>json.loads\<close>, \<^verbatim>\<open>session.get\<close>,
  \<^verbatim>\<open>raise_for_status\<close>, \<^verbatim>\<open>r.json()\<close>) may raise, and what it raises or returns is an input
  of the model. The calls outside every \<^verbatim>\<open>try\<close> whose failure depends on the arguments
  or on the machine (\<^verbatim>\<open>quote\<close>, \<^verbatim>\<open>time.sleep\<close>, the conversion of \<^verbatim>\<open>2 ** attempt\<close> to a
  float, \<^verbatim>\<open>os.makedirs\<close>, \<^verbatim>\<open>open\<close> and \<^verbatim>\<open>write\<close>) raise in the model where Python
  raises, and their exception leaves the function. The logger and the constructor and
  \<^verbatim>\<open>close\<close> of the HTML session are taken to return. The operations the source itself
  applies to parsed JSON (\<^verbatim>\<open>.get\<close>, \<^verbatim>\<open>.values()\<close>, iteration, truth tests, slicing) are
  modelled with Python's own failures.
\<close>

text \<open>
  The exception classes, as far as the handlers of the source tell them apart:
  \<^verbatim>\<open>except requests.RequestException\<close> catches the first only, \<^verbatim>\<open>except Exception\<close>
  every one of them.
\<close>

datatype exn =
    RequestException
  | AttributeError
  | TypeError
  | ValueError
  | OverflowError
  | UnicodeEncodeError
  | OSError
  | OtherError

text \<open>
  What \<^verbatim>\<open>json.loads\<close> and \<^verbatim>\<open>r.json()\<close> return. A Python \<^verbatim>\<open>dict\<close> is an association
  list in insertion order (the order of \<^verbatim>\<open>.values()\<close>); a dict has no duplicate keys, and
  lookup takes the first binding.
\<close>

datatype json =
    JNull
  | JBool bool
  | JInt int
  | JFloat real
  | JStr string
  | JArr "json list"
  | JObj "(string \<times> json) list"

text \<open>Python's truth value of an object, as tested by \<^verbatim>\<open>if image_url:\<close> and \<^verbatim>\<open>if u:\<close>.\<close>

fun truthy :: "json \<Rightarrow> bool" where
  "truthy JNull = False"
| "truthy (JBool b) = b"
| "truthy (JInt n) = (n \<noteq> 0)"
| "truthy (JFloat x) = (x \<noteq> 0)"
| "truthy (JStr s) = (s \<noteq> [])"
| "truthy (JArr xs) = (xs \<noteq> [])"
| "truthy (JObj kvs) = (kvs \<noteq> [])"

text \<open>
  \<^verbatim>\<open>obj.get(key, default)\<close>: only a dict has the method; on every other JSON value
  the attribute lookup raises \<^verbatim>\<open>AttributeError\<close>. A key that is present wins over the
  default even when its value is \<^verbatim>\<open>None\<close>.
\<close>

fun py_get :: "json \<Rightarrow> string \<Rightarrow> json \<Rightarrow> exn + json" where
  "py_get (JObj kvs) k d = Inr (case map_of kvs k of Some v \<Rightarrow> v | None \<Rightarrow> d)"
| "py_get _ k d = Inl AttributeError"

text \<open>\<^verbatim>\<open>obj.values()\<close>: again a method of dicts only.\<close>

fun py_values :: "json \<Rightarrow> exn + json list" where
  "py_values (JObj kvs) = Inr (map snd kvs)"
| "py_values _ = Inl AttributeError"

text \<open>
  \<^verbatim>\<open>for res in obj\<close>: a list yields its elements, a dict its keys, a string its
  characters as one-character strings; \<^verbatim>\<open>None\<close>, booleans and numbers are not iterable
  (\<^verbatim>\<open>TypeError\<close>).
\<close>

fun py_iter :: "json \<Rightarrow> exn + json list" where
  "py_iter (JArr xs) = Inr xs"
| "py_iter (JObj kvs) = Inr (map (\<lambda>kv. JStr (fst kv)) kvs)"
| "py_iter (JStr s) = Inr (map (\<lambda>c. JStr [c]) s)"
| "py_iter _ = Inl TypeError"

text \<open>
  The slice \<^verbatim>\<open>xs[:n]\<close>: the first \<open>n\<close> elements for \<open>n \<ge> 0\<close>, all but the last
  \<open>-n\<close> for \<open>n < 0\<close> (nothing when the list is that short).
\<close>

definition py_slice :: "'a list \<Rightarrow> int \<Rightarrow> 'a list" where
  "py_slice xs n = (if 0 \<le> n then take (nat n) xs else take (nat (int (length xs) + n)) xs)"

text \<open>Sequencing of computations that may raise.\<close>

definition and_then :: "exn + 'a \<Rightarrow> ('a \<Rightarrow> exn + 'b) \<Rightarrow> exn + 'b" where
  "and_then m f = (case m of Inl e \<Rightarrow> Inl e | Inr x \<Rightarrow> f x)"

section \<open>Text and \<^verbatim>\<open>urllib.parse.quote\<close>\<close>

text \<open>
  A Python \<^verbatim>\<open>str\<close> is a sequence of code points. \<^verbatim>\<open>quote(query)\<close> encodes the text in
  UTF-8 with strict error handling, which raises \<^verbatim>\<open>UnicodeEncodeError\<close> on a surrogate
  code point (U+D800 to U+DFFF; the command line delivers such code points for bytes it
  could not decode), and then writes every byte that is not a letter, a digit or one of
  \<^verbatim>\<open>_.-~/\<close> as \<^verbatim>\<open>%XX\<close>.
\<close>

type_synonym str = "nat list"

definition surrogate :: "nat \<Rightarrow> bool" where
  "surrogate c = (55296 \<le> c \<and> c \<le> 57343)"

definition utf8 :: "nat \<Rightarrow> nat list" where
  "utf8 c =
     (if c < 128 then [c]
      else if c < 2048 then [192 + c div 64, 128 + c mod 64]
      else if c < 65536 then [224 + c div 4096, 128 + c div 64 mod 64, 128 + c mod 64]
      else [240 + c div 262144, 128 + c div 4096 mod 64, 128 + c div 64 mod 64, 128 + c mod 64])"

definition unreserved :: "nat \<Rightarrow> bool" where
  "unreserved b =
     ((65 \<le> b \<and> b \<le> 90) \<or> (97 \<le> b \<and> b \<le> 122) \<or> (48 \<le> b \<and> b \<le> 57)
      \<or> b = 95 \<or> b = 46 \<or> b = 45 \<or> b = 126 \<or> b = 47)"

definition percent :: "nat \<Rightarrow> string" where
  "percent b =
     (if unreserved b then [char_of b]
      else [CHR ''%'', ''0123456789ABCDEF'' ! (b div 16), ''0123456789ABCDEF'' ! (b mod 16)])"

definition quote :: "str \<Rightarrow> exn + string" where
  "quote s =
     (if list_ex surrogate s then Inl UnicodeEncodeError
      else Inr (concat (map percent (concat (map utf8 s)))))"

section \<open>The world the program acts on\<close>

text \<open>
  \<^verbatim>\<open>session.get(url, timeout=20)\<close> of a download raises or returns a response with a status
  code and a body.
\<close>

datatype get_result = GetFails exn | GetResponse int string

text \<open>
  The effects of the program, in the order they happen: the request for the rendered
  search page (with its URL), the request to the search API (with the \<^verbatim>\<open>source_url\<close> and
  the \<^verbatim>\<open>page_size\<close> it sends), a download request with its answer, a completed sleep, a
  file stored.
\<close>

datatype 'u event =
    PageRequest string
  | ApiRequest string int
  | Request 'u get_result
  | Sleep real
  | Write string

text \<open>
  The state: the number of download requests made so far for each URL, the effects so far,
  and the files on disk (path to content).
\<close>

record 'u world =
  hits :: "'u \<Rightarrow> nat"
  trace :: "'u event list"
  files :: "string \<rightharpoonup> string"

text \<open>The events a run added to the trace it started from.\<close>

definition added :: "'u world \<Rightarrow> 'u world \<Rightarrow> 'u event list" where
  "added w w' = drop (length (trace w)) (trace w')"

fun is_api_request :: "'u event \<Rightarrow> bool" where
  "is_api_request (ApiRequest source page_size) = True"
| "is_api_request _ = False"



section \<open>Resolution of a query: \<^verbatim>\<open>fetch_image_urls\<close>\<close>

text \<open>
  \<^verbatim>\<open>pin.get("images", {}).get("orig", {}).get("url")\<close>, the expression both stages apply to
  an entry of their payload.
\<close>

definition image_url :: "json \<Rightarrow> exn + json" where
  "image_url entry =
     and_then (py_get entry ''images'' (JObj []))
       (\<lambda>images. and_then (py_get images ''orig'' (JObj []))
          (\<lambda>orig. py_get orig ''url'' JNull))"

text \<open>
  The loop both stages run over their entries (source lines 110-119 and 154-159):
  \<^verbatim>\<open>
  for pin in entries:
      image_url = pin.get("images", {}).get("orig", {}).get("url")
      if image_url:
          urls.append(image_url)
          if len(urls) >= limit:
              break
  \<close>
  \<^verbatim>\<open>urls\<close> is appended to in place, so an exception in the middle of the loop leaves the
  URLs found so far in it: the loop returns the list together with the exception, if any.
\<close>

fun collect :: "int \<Rightarrow> json list \<Rightarrow> json list \<Rightarrow> json list \<times> exn option" where
  "collect limit urls [] = (urls, None)"
| "collect limit urls (entry # entries) =
     (case image_url entry of
        Inl e \<Rightarrow> (urls, Some e)
      | Inr u \<Rightarrow>
          if truthy u then
            (if limit \<le> int (length (urls @ [u])) then (urls @ [u], None)
             else collect limit (urls @ [u]) entries)
          else collect limit urls entries)"

text \<open>
  What the outside world answers to the resolver.
  \<^item> \<open>html_session\<close>: whether \<^verbatim>\<open>requests_html\<close> could be imported (\<^verbatim>\<open>HTMLSession is not None\<close>).
  \<^item> \<open>render\<close>, for the URL of the search page: the page fetch, its rendering and the search
    for the \<^verbatim>\<open>script#__PWS_DATA__\<close> element raise, or find no script (or one with empty
    text), or find a text on which \<^verbatim>\<open>json.loads\<close> raises or returns a value.
  \<^item> \<open>api_get\<close>, for the \<^verbatim>\<open>source_url\<close> and the \<^verbatim>\<open>page_size\<close> of the request:
    \<^verbatim>\<open>session.get\<close> raises, or returns a response with a status code and with what
    \<^verbatim>\<open>r.json()\<close> will raise or return.
  The cache-busting timestamp of the API request is not part of the model.
\<close>

datatype page = RenderRaises exn | NoScript | ScriptText "exn + json"

datatype api_response = GetRaises exn | Response int "exn + json"

record resolver_env =
  html_session :: bool
  render :: "string \<Rightarrow> page"
  api_get :: "string \<Rightarrow> int \<Rightarrow> api_response"

definition page_url :: "string \<Rightarrow> string" where
  "page_url q = ''https://www.pinterest.com/search/pins/?q='' @ q"

definition source_url :: "string \<Rightarrow> string" where
  "source_url q = ''/search/pins/?q='' @ q"

text \<open>\<^verbatim>\<open>data.get("initialReduxState", {}).get("pins", {})\<close> followed by \<^verbatim>\<open>pins.values()\<close>.\<close>

definition pins_of :: "json \<Rightarrow> exn + json list" where
  "pins_of data =
     and_then (py_get data ''initialReduxState'' (JObj []))
       (\<lambda>state. and_then (py_get state ''pins'' (JObj [])) py_values)"

text \<open>
  The \<^verbatim>\<open>try\<close> statement of stage 1 (source lines 100-125), given what the page request
  for \<open>url\<close> is answered; the value is the list \<^verbatim>\<open>urls\<close> after the statement. Both
  handlers are \<^verbatim>\<open>except Exception\<close>: whatever is raised is logged and dropped, and
  \<^verbatim>\<open>urls\<close> keeps what the loop had appended.
\<close>

definition primary :: "resolver_env \<Rightarrow> string \<Rightarrow> int \<Rightarrow> json list" where
  "primary env url limit =
     (case render env url of
        RenderRaises e \<Rightarrow> []
      | NoScript \<Rightarrow> []
      | ScriptText (Inl e) \<Rightarrow> []
      | ScriptText (Inr data) \<Rightarrow>
          (case pins_of data of
             Inl e \<Rightarrow> []
           | Inr pins \<Rightarrow> fst (collect limit [] pins)))"

text \<open>
  Stage 1 (source lines 95-125), entered when \<open>html_session\<close> holds. \<^verbatim>\<open>quote(query)\<close>
  is evaluated before the \<^verbatim>\<open>try\<close>, so its exception leaves the function and no request
  is made; otherwise the page is requested.
\<close>

definition stage1 ::
  "resolver_env \<Rightarrow> str \<Rightarrow> int \<Rightarrow> 'u world \<Rightarrow> (exn + json list) \<times> 'u world" where
  "stage1 env query limit w =
     (case quote query of
        Inl e \<Rightarrow> (Inl e, w)
      | Inr q \<Rightarrow>
          (Inr (primary env (page_url q) limit),
           w\<lparr>trace := trace w @ [PageRequest (page_url q)]\<rparr>))"

text \<open>
  \<^verbatim>\<open>payload.get("resource_response", {}).get("data", {}).get("results", [])\<close> and the
  iteration \<^verbatim>\<open>for res in results\<close>.
\<close>

definition results_of :: "json \<Rightarrow> exn + json list" where
  "results_of payload =
     and_then (py_get payload ''resource_response'' (JObj []))
       (\<lambda>rr. and_then (py_get rr ''data'' (JObj []))
          (\<lambda>data. and_then (py_get data ''results'' (JArr [])) py_iter))"

text \<open>
  The handler of stage 2 is \<^verbatim>\<open>except requests.RequestException\<close>: such an exception is
  logged and the function goes on to \<^verbatim>\<open>return urls[:limit]\<close>; any other exception leaves
  \<^verbatim>\<open>fetch_image_urls\<close>.
\<close>

definition api_handler :: "exn \<Rightarrow> json list \<Rightarrow> int \<Rightarrow> exn + json list" where
  "api_handler e urls limit = (if e = RequestException then Inr (py_slice urls limit) else Inl e)"

text \<open>
  \<^verbatim>\<open>r.raise_for_status()\<close> raises \<^verbatim>\<open>HTTPError\<close>, a \<^verbatim>\<open>RequestException\<close>, for a status
  from 400 to 599.
\<close>

definition raise_for_status :: "int \<Rightarrow> bool" where
  "raise_for_status status = (400 \<le> status \<and> status < 600)"

text \<open>\<^verbatim>\<open>session.get(api_url, params=params, timeout=20)\<close>: the request and its answer.\<close>

definition api_request ::
  "resolver_env \<Rightarrow> string \<Rightarrow> int \<Rightarrow> 'u world \<Rightarrow> api_response \<times> 'u world" where
  "api_request env source page_size w =
     (api_get env source page_size, w\<lparr>trace := trace w @ [ApiRequest source page_size]\<rparr>)"

text \<open>
  What follows the request inside the \<^verbatim>\<open>try\<close> of stage 2 (source lines 146-161), with the
  final \<^verbatim>\<open>return urls[:limit]\<close>.
\<close>

definition read_api :: "api_response \<Rightarrow> int \<Rightarrow> json list \<Rightarrow> exn + json list" where
  "read_api r limit urls =
     (case r of
        GetRaises e \<Rightarrow> api_handler e urls limit
      | Response status body \<Rightarrow>
          if raise_for_status status then api_handler RequestException urls limit
          else
            (case body of
               Inl e \<Rightarrow> api_handler e urls limit
             | Inr payload \<Rightarrow>
                 (case results_of payload of
                    Inl e \<Rightarrow> api_handler e urls limit
                  | Inr results \<Rightarrow>
                      (case collect limit urls results of
                         (urls', Some e) \<Rightarrow> api_handler e urls' limit
                       | (urls', None) \<Rightarrow> Inr (py_slice urls' limit)))))"

text \<open>
  Stage 2 (source lines 131-165), entered with the list \<^verbatim>\<open>urls\<close> of stage 1, which is
  empty whenever stage 2 is reached. \<^verbatim>\<open>quote(query)\<close> is evaluated while the parameters
  are built, before the \<^verbatim>\<open>try\<close>; the request asks for \<^verbatim>\<open>page_size = max(25, limit)\<close>.
\<close>

definition fallback ::
  "resolver_env \<Rightarrow> str \<Rightarrow> int \<Rightarrow> json list \<Rightarrow> 'u world \<Rightarrow> (exn + json list) \<times> 'u world" where
  "fallback env query limit urls w =
     (case quote query of
        Inl e \<Rightarrow> (Inl e, w)
      | Inr q \<Rightarrow>
          (case api_request env (source_url q) (max 25 limit) w of
             (r, w1) \<Rightarrow> (read_api r limit urls, w1)))"

definition fetch_image_urls ::
  "resolver_env \<Rightarrow> str \<Rightarrow> int \<Rightarrow> 'u world \<Rightarrow> (exn + json list) \<times> 'u world" where
  "fetch_image_urls env query limit w =
     (if html_session env then
        (case stage1 env query limit w of
           (Inl e, w1) \<Rightarrow> (Inl e, w1)
         | (Inr urls, w1) \<Rightarrow>
             if urls \<noteq> [] then (Inr (py_slice urls limit), w1)
             else fallback env query limit urls w1)
      else fallback env query limit [] w)"

text \<open>
  What the primary stage yields for a query that \<^verbatim>\<open>quote\<close> encodes as \<open>q\<close>: the list of
  stage 1, the empty list when the rendering capability is absent.
\<close>

definition primary_urls :: "resolver_env \<Rightarrow> string \<Rightarrow> int \<Rightarrow> json list" where
  "primary_urls env q limit = (if html_session env then primary env (page_url q) limit else [])"

text \<open>The number of requests to the search API that a run from \<open>w\<close> to \<open>w'\<close> issued.\<close>

definition api_calls :: "'u world \<Rightarrow> 'u world \<Rightarrow> nat" where
  "api_calls w w' = length (filter is_api_request (added w w'))"

section \<open>Downloads: \<^verbatim>\<open>download_image\<close> and \<^verbatim>\<open>download_images\<close>\<close>

text \<open>
  What the machine answers to the downloads.
  \<^item> \<open>session\<close>: the answer to \<^verbatim>\<open>session.get\<close> for a URL, as a function of the number of
    requests this URL has received before, so that successive requests for one URL can be
    answered differently.
  \<^item> \<open>disk\<close>: what happens when a path is opened for writing and written: the content is
    stored, or \<^verbatim>\<open>open\<close> raises \<^verbatim>\<open>OSError\<close> and the disk is unchanged, or \<^verbatim>\<open>write\<close>
    raises \<^verbatim>\<open>OSError\<close> after so many bytes.
  \<^item> \<open>can_makedirs\<close>: whether \<^verbatim>\<open>os.makedirs(output_dir, exist_ok=True)\<close> returns.
  \<^item> \<open>sleep_max\<close>: the longest duration \<^verbatim>\<open>time.sleep\<close> accepts on the platform; beyond it
    the conversion to the platform's time type raises \<^verbatim>\<open>OverflowError\<close>.
\<close>

datatype disk_answer = Stores | OpenFails | WriteFails nat

record 'u system =
  session :: "'u \<Rightarrow> nat \<Rightarrow> get_result"
  disk :: "string \<Rightarrow> disk_answer"
  can_makedirs :: "string \<Rightarrow> bool"
  sleep_max :: real

definition request :: "'u system \<Rightarrow> 'u \<Rightarrow> 'u world \<Rightarrow> get_result \<times> 'u world" where
  "request sys url w =
     (let r = session sys url (hits w url)
      in (r, w\<lparr>hits := (hits w)(url := hits w url + 1), trace := trace w @ [Request url r]\<rparr>))"

text \<open>
  \<^verbatim>\<open>with open(dest_path, "wb") as fh: fh.write(resp.content)\<close>. Opening the empty path
  raises \<^verbatim>\<open>FileNotFoundError\<close>, an \<^verbatim>\<open>OSError\<close>. The result is the exception raised, if any.
\<close>

definition write_file ::
  "'u system \<Rightarrow> string \<Rightarrow> string \<Rightarrow> 'u world \<Rightarrow> exn option \<times> 'u world" where
  "write_file sys path content w =
     (if path = [] then (Some OSError, w)
      else
        (case disk sys path of
           Stores \<Rightarrow>
             (None, w\<lparr>trace := trace w @ [Write path], files := (files w)(path \<mapsto> content)\<rparr>)
         | OpenFails \<Rightarrow> (Some OSError, w)
         | WriteFails n \<Rightarrow> (Some OSError, w\<lparr>files := (files w)(path \<mapsto> take n content)\<rparr>)))"

text \<open>
  \<^verbatim>\<open>backoff_factor * (2 ** attempt)\<close>: the integer power is converted to a float, which
  raises \<^verbatim>\<open>OverflowError\<close> from \<open>2 ^ 1024\<close> on. Scaling a float by a power of two is exact,
  so the product is the real one (a product too large for a float is too long a sleep).
\<close>

definition backoff_delay :: "real \<Rightarrow> nat \<Rightarrow> exn + real" where
  "backoff_delay backoff_factor attempt =
     (if 1024 \<le> attempt then Inl OverflowError else Inr (backoff_factor * 2 ^ attempt))"

text \<open>
  \<^verbatim>\<open>time.sleep(backoff)\<close> raises \<^verbatim>\<open>ValueError\<close> for a negative duration and
  \<^verbatim>\<open>OverflowError\<close> for one the platform cannot represent.
\<close>

definition time_sleep :: "'u system \<Rightarrow> real \<Rightarrow> 'u world \<Rightarrow> exn option \<times> 'u world" where
  "time_sleep sys seconds w =
     (if seconds < 0 then (Some ValueError, w)
      else if sleep_max sys < seconds then (Some OverflowError, w)
      else (None, w\<lparr>trace := trace w @ [Sleep seconds]\<rparr>))"

text \<open>
  The body of \<^verbatim>\<open>for attempt in range(max_retries)\<close> (source lines 179-204), over the
  attempts that remain. \<^verbatim>\<open>break\<close> and the end of the loop both reach \<^verbatim>\<open>return False\<close>.
  Only a \<^verbatim>\<open>RequestException\<close> of \<^verbatim>\<open>session.get\<close> is caught; every other exception leaves
  the function.
\<close>

fun attempts ::
  "'u system \<Rightarrow> 'u \<Rightarrow> string \<Rightarrow> real \<Rightarrow> nat list \<Rightarrow> 'u world \<Rightarrow> (exn + bool) \<times> 'u world" where
  "attempts sys url dest_path backoff_factor [] w = (Inr False, w)"
| "attempts sys url dest_path backoff_factor (attempt # rest) w =
     (case request sys url w of
        (GetFails e, w1) \<Rightarrow> if e = RequestException then (Inr False, w1) else (Inl e, w1)
      | (GetResponse status_code content, w1) \<Rightarrow>
          if status_code = 200 then
            (case write_file sys dest_path content w1 of
               (Some e, w2) \<Rightarrow> (Inl e, w2)
             | (None, w2) \<Rightarrow> (Inr True, w2))
          else if status_code = 403 \<or> status_code = 429 then
            (case backoff_delay backoff_factor attempt of
               Inl e \<Rightarrow> (Inl e, w1)
             | Inr backoff \<Rightarrow>
                 (case time_sleep sys backoff w1 of
                    (Some e, w2) \<Rightarrow> (Inl e, w2)
                  | (None, w2) \<Rightarrow> attempts sys url dest_path backoff_factor rest w2))
          else (Inr False, w1))"

definition download_image ::
  "'u system \<Rightarrow> 'u \<Rightarrow> string \<Rightarrow> int \<Rightarrow> real \<Rightarrow> 'u world \<Rightarrow> (exn + bool) \<times> 'u world" where
  "download_image sys url dest_path max_retries backoff_factor w =
     attempts sys url dest_path backoff_factor [0..<nat max_retries] w"

text \<open>The decimal numeral of \<^verbatim>\<open>f"image_{idx}.jpg"\<close> and \<^verbatim>\<open>os.path.join\<close> (POSIX).\<close>

fun decimal :: "nat \<Rightarrow> string" where
  "decimal n = (if n < 10 then [''0123456789'' ! n]
                else decimal (n div 10) @ [''0123456789'' ! (n mod 10)])"





section \<open>The orchestrator: \<^verbatim>\<open>main\<close>\<close>



section \<open>What the specification calls a malformed and a well-formed entry\<close>

text \<open>
  An entry is missing \<^verbatim>\<open>images.orig.url\<close> when it is an object and the path stops at an
  absent key: no \<^verbatim>\<open>images\<close>, or an object \<^verbatim>\<open>images\<close> without \<^verbatim>\<open>orig\<close>, or an object
  \<^verbatim>\<open>orig\<close> without \<^verbatim>\<open>url\<close>.
\<close>

definition missing_url :: "json \<Rightarrow> bool" where
  "missing_url entry =
     (case entry of
        JObj kvs \<Rightarrow>
          (case map_of kvs ''images'' of
             None \<Rightarrow> True
           | Some (JObj images) \<Rightarrow>
               (case map_of images ''orig'' of
                  None \<Rightarrow> True
                | Some (JObj orig) \<Rightarrow> map_of orig ''url'' = None
                | Some _ \<Rightarrow> False)
           | Some _ \<Rightarrow> False)
      | _ \<Rightarrow> False)"

text \<open>
  The URL of a well-formed entry: the object has an object \<^verbatim>\<open>images\<close> with an object
  \<^verbatim>\<open>orig\<close> whose \<^verbatim>\<open>url\<close> is a non-empty string.
\<close>

definition orig_url :: "json \<Rightarrow> json option" where
  "orig_url entry =
     (case entry of
        JObj kvs \<Rightarrow>
          (case map_of kvs ''images'' of
             Some (JObj images) \<Rightarrow>
               (case map_of images ''orig'' of
                  Some (JObj orig) \<Rightarrow>
                    (case map_of orig ''url'' of
                       Some (JStr s) \<Rightarrow> if s = [] then None else Some (JStr s)
                     | _ \<Rightarrow> None)
                | _ \<Rightarrow> None)
           | _ \<Rightarrow> None)
      | _ \<Rightarrow> None)"

definition well_formed :: "json \<Rightarrow> bool" where
  "well_formed entry = (orig_url entry \<noteq> None)"

text \<open>
  The candidate list the specification describes: the URLs of the well-formed entries, in
  the order of the payload, up to the limit.
\<close>

definition candidates :: "int \<Rightarrow> json list \<Rightarrow> json list" where
  "candidates limit entries = take (nat limit) (List.map_filter orig_url entries)"

section \<open>Example inputs\<close>

text \<open>The query \<^verbatim>\<open>cats\<close>, and a query that is one lone surrogate, \<^verbatim>\<open>'\udcff'\<close>.\<close>

definition cats :: str where
  "cats = [99, 97, 116, 115]"

definition lone_surrogate :: str where
  "lone_surrogate = [56575]"

definition entry_with :: "string \<Rightarrow> json" where
  "entry_with u = JObj [(''images'', JObj [(''orig'', JObj [(''url'', JStr u)])])]"

definition entries_mixed :: "json list" where
  "entries_mixed =
     [entry_with ''https://i.example/a.jpg'',
      JObj [(''id'', JInt 7)],
      JObj [(''images'', JObj [(''thumb'', JObj [])])],
      entry_with ''https://i.example/b.jpg'',
      JObj [(''images'', JObj [(''orig'', JObj [(''width'', JInt 640)])])],
      entry_with ''https://i.example/c.jpg'']"

text \<open>An entry whose \<^verbatim>\<open>images\<close> is \<^verbatim>\<open>null\<close>, between two well-formed entries.\<close>

definition entries_null_images :: "json list" where
  "entries_null_images =
     [entry_with ''https://i.example/a.jpg'',
      JObj [(''images'', JNull)],
      entry_with ''https://i.example/b.jpg'']"

definition api_payload :: "json list \<Rightarrow> json" where
  "api_payload entries =
     JObj [(''resource_response'', JObj [(''data'', JObj [(''results'', JArr entries)])])]"

definition page_data :: "json list \<Rightarrow> json" where
  "page_data entries =
     JObj [(''initialReduxState'',
            JObj [(''pins'', JObj (zip [''p1'', ''p2'', ''p3'', ''p4'', ''p5'', ''p6''] entries))])]"

text \<open>No rendering capability; the API answers 200 with the mixed entries.\<close>

definition env_api :: resolver_env where
  "env_api =
     \<lparr>html_session = False,
      render = (\<lambda>url. NoScript),
      api_get = (\<lambda>source n. Response 200 (Inr (api_payload entries_mixed)))\<rparr>"

text \<open>The rendered page carries the mixed entries; the API is unreachable.\<close>

definition env_page :: resolver_env where
  "env_page =
     \<lparr>html_session = True,
      render = (\<lambda>url. ScriptText (Inr (page_data entries_mixed))),
      api_get = (\<lambda>source n. GetRaises RequestException)\<rparr>"

text \<open>
  No rendering capability; the API answers 200 with the body
  \<^verbatim>\<open>{"resource_response": null}\<close>.
\<close>

definition env_null :: resolver_env where
  "env_null =
     \<lparr>html_session = False,
      render = (\<lambda>url. NoScript),
      api_get = (\<lambda>source n. Response 200 (Inr (JObj [(''resource_response'', JNull)])))\<rparr>"

text \<open>No rendering capability; the API answers 200 with an empty result list.\<close>

definition env_empty :: resolver_env where
  "env_empty =
     \<lparr>html_session = False,
      render = (\<lambda>url. NoScript),
      api_get = (\<lambda>source n. Response 200 (Inr (api_payload [])))\<rparr>"

text \<open>
  The rendered page carries the entries with the \<^verbatim>\<open>null\<close> images; the API answers 200
  with an empty result list.
\<close>

definition env_page_null_images :: resolver_env where
  "env_page_null_images =
     \<lparr>html_session = True,
      render = (\<lambda>url. ScriptText (Inr (page_data entries_null_images))),
      api_get = (\<lambda>source n. Response 200 (Inr (api_payload [])))\<rparr>"

text \<open>A fresh world: no request made, nothing on disk.\<close>

definition fresh :: "'u world" where
  "fresh = \<lparr>hits = (\<lambda>u. 0), trace = [], files = Map.empty\<rparr>"

text \<open>
  A machine with the given server, a disk that stores everything, every directory
  creatable, and sleeps of up to a day.
\<close>

definition machine :: "('u \<Rightarrow> nat \<Rightarrow> get_result) \<Rightarrow> 'u system" where
  "machine server =
     \<lparr>session = server, disk = (\<lambda>path. Stores), can_makedirs = (\<lambda>path. True),
      sleep_max = 86400\<rparr>"

text \<open>A server that answers 429 to the first two requests for a URL and 200 from then on.\<close>

definition busy_twice :: "string \<Rightarrow> nat \<Rightarrow> get_result" where
  "busy_twice url n = (if n < 2 then GetResponse 429 [] else GetResponse 200 ''JPEG'')"

text \<open>A server that answers 404 to every request.\<close>

definition not_found :: "string \<Rightarrow> nat \<Rightarrow> get_result" where
  "not_found url n = GetResponse 404 []"







section \<open>Properties of the resolver\<close>

lemma char_of_cats:
  "char_of (99::nat) = CHR ''c''" "char_of (97::nat) = CHR ''a''"
  "char_of (116::nat) = CHR ''t''" "char_of (115::nat) = CHR ''s''"
  by code_simp+

lemma quote_cats: "quote cats = Inr ''cats''"
  by (simp add: quote_def cats_def surrogate_def utf8_def percent_def unreserved_def
      char_of_cats)

lemma quote_lone_surrogate: "quote lone_surrogate = Inl UnicodeEncodeError"
  by (simp add: quote_def lone_surrogate_def surrogate_def)

lemma collect_nonpos: "limit \<le> 0 \<Longrightarrow> length (fst (collect limit [] es)) \<le> 1"
  by (induction es) (auto split: sum.splits)

lemma py_slice_short: "limit \<le> 0 \<Longrightarrow> length xs \<le> 1 \<Longrightarrow> py_slice xs limit = []"
  by (auto simp: py_slice_def)

lemma primary_nonpos:
  assumes "limit \<le> 0"
  shows "length (primary env url limit) \<le> 1"
proof -
  have "length (fst (collect limit [] pins)) \<le> 1" for pins
    using assms by (rule collect_nonpos)
  then show ?thesis
    by (simp add: primary_def split: page.splits sum.splits)
qed

lemma api_handler_cases:
  "api_handler e urls limit = Inr (py_slice urls limit)
   \<or> (e \<noteq> RequestException \<and> api_handler e urls limit = Inl e)"
  by (simp add: api_handler_def)

lemma read_api_nonpos:
  assumes "limit \<le> 0"
  shows "read_api r limit [] = Inr []
         \<or> (\<exists>e. e \<noteq> RequestException \<and> read_api r limit [] = Inl e)"
proof -
  have short: "py_slice [] limit = ([]::json list)" by (simp add: py_slice_def)
  have h: "\<And>e. api_handler e [] limit = Inr []
              \<or> (e \<noteq> RequestException \<and> api_handler e [] limit = Inl e)"
    using api_handler_cases [of _ "[]" limit] short by simp
  show ?thesis
  proof (cases r)
    case (GetRaises e)
    then show ?thesis using h [of e] by (auto simp: read_api_def)
  next
    case (Response status body)
    show ?thesis
    proof (cases "raise_for_status status")
      case True
      then show ?thesis using Response by (simp add: read_api_def api_handler_def short)
    next
      case False
      show ?thesis
      proof (cases body)
        case (Inl e)
        then show ?thesis using Response False h [of e] by (auto simp: read_api_def)
      next
        case (Inr payload)
        show ?thesis
        proof (cases "results_of payload")
          case (Inl e)
          then show ?thesis using Response False Inr h [of e] by (auto simp: read_api_def)
        next
          case res: (Inr results)
          obtain urls x where c: "collect limit [] results = (urls, x)"
            by (cases "collect limit [] results")
          have "length urls \<le> 1" using collect_nonpos [OF assms, of results] c by simp
          then have s: "py_slice urls limit = []" using assms by (rule py_slice_short [rotated])
          show ?thesis
          proof (cases x)
            case None
            then show ?thesis using Response False Inr res c s by (simp add: read_api_def)
          next
            case (Some e)
            then show ?thesis
              using Response False Inr res c s api_handler_cases [of e urls limit]
              by (auto simp: read_api_def)
          qed
        qed
      qed
    qed
  qed
qed

text \<open>The two ways through the resolver for a query that \<^verbatim>\<open>quote\<close> encodes.\<close>

lemma fetch_primary:
  assumes "quote query = Inr q" and "primary_urls env q limit \<noteq> []"
  shows "fetch_image_urls env query limit w =
           (Inr (py_slice (primary_urls env q limit) limit),
            w\<lparr>trace := trace w @ [PageRequest (page_url q)]\<rparr>)"
proof -
  from assms(2) have hs: "html_session env" and pe: "primary env (page_url q) limit \<noteq> []"
    by (auto simp: primary_urls_def split: if_splits)
  then show ?thesis using assms(1)
    by (simp add: fetch_image_urls_def stage1_def primary_urls_def)
qed

lemma fetch_fallback:
  assumes "quote query = Inr q" and "primary_urls env q limit = []"
  shows "fetch_image_urls env query limit w =
           (read_api (api_get env (source_url q) (max 25 limit)) limit [],
            w\<lparr>trace := trace w @ (if html_session env then [PageRequest (page_url q)] else [])
                                @ [ApiRequest (source_url q) (max 25 limit)]\<rparr>)"
proof (cases "html_session env")
  case True
  then have "primary env (page_url q) limit = []" using assms(2) by (simp add: primary_urls_def)
  then show ?thesis using True assms(1)
    by (simp add: fetch_image_urls_def stage1_def fallback_def api_request_def)
next
  case False
  then show ?thesis using assms(1)
    by (simp add: fetch_image_urls_def fallback_def api_request_def)
qed

lemma api_calls_append: "api_calls w (w\<lparr>trace := trace w @ ev\<rparr>) = length (filter is_api_request ev)"
  by (simp add: api_calls_def added_def)

text \<open>
  Claim C1, as the specification states it: for every \<open>limit \<le> 0\<close> the resolver returns
  the empty list and issues no fallback request. The source has no test of the limit before
  stage 2: with no rendering capability and an API that answers 200 with an empty result
  list, the call with limit 0 returns the empty list and its trace holds one request to the
  API.
\<close>

theorem nonpositive_limit_still_calls_api:
  "fst (fetch_image_urls env_empty cats 0 (fresh :: string world)) = Inr []
   \<and> api_calls fresh (snd (fetch_image_urls env_empty cats 0 (fresh :: string world))) = 1"
proof -
  have p: "primary_urls env_empty ''cats'' 0 = []"
    by (simp add: primary_urls_def env_empty_def)
  have r: "read_api (api_get env_empty (source_url ''cats'') (max 25 0)) 0 [] = Inr []"
    by (simp add: env_empty_def read_api_def raise_for_status_def api_payload_def
        results_of_def and_then_def py_slice_def)
  show ?thesis
    using fetch_fallback [OF quote_cats p, of "fresh :: string world"] r
    by (simp add: api_calls_def added_def fresh_def env_empty_def)
qed

text \<open>
  Claim C1, amended: for every \<open>limit \<le> 0\<close> and every query that \<^verbatim>\<open>quote\<close> encodes, the
  resolver does not short-circuit on the limit. When stage 1 yields a URL, it returns the
  empty list and issues no request to the API. When stage 1 yields nothing (or is
  unavailable), it issues exactly one request to the API, and then either returns the empty
  list or is left by an exception other than \<^verbatim>\<open>RequestException\<close> raised in stage 2; it
  never returns a non-empty list.
\<close>

theorem nonpositive_limit_result:
  assumes "limit \<le> 0" and "quote query = Inr q"
  shows "(primary_urls env q limit \<noteq> [] \<longrightarrow>
            fst (fetch_image_urls env query limit w) = Inr []
          \<and> api_calls w (snd (fetch_image_urls env query limit w)) = 0)
       \<and> (primary_urls env q limit = [] \<longrightarrow>
            api_calls w (snd (fetch_image_urls env query limit w)) = 1
          \<and> (fst (fetch_image_urls env query limit w) = Inr []
             \<or> (\<exists>e. e \<noteq> RequestException
                     \<and> fst (fetch_image_urls env query limit w) = Inl e)))"
proof (intro conjI impI)
  assume ne: "primary_urls env q limit \<noteq> []"
  have "length (primary_urls env q limit) \<le> 1"
    using primary_nonpos [OF assms(1)] by (simp add: primary_urls_def)
  then have "py_slice (primary_urls env q limit) limit = []"
    using assms(1) by (rule py_slice_short [rotated])
  then show "fst (fetch_image_urls env query limit w) = Inr []"
    using fetch_primary [OF assms(2) ne, of w] by simp
  show "api_calls w (snd (fetch_image_urls env query limit w)) = 0"
    using fetch_primary [OF assms(2) ne, of w] api_calls_append [of w "[PageRequest (page_url q)]"]
    by simp
next
  assume e: "primary_urls env q limit = []"
  show "api_calls w (snd (fetch_image_urls env query limit w)) = 1"
    using fetch_fallback [OF assms(2) e, of w]
      api_calls_append [of w "(if html_session env then [PageRequest (page_url q)] else [])
                                @ [ApiRequest (source_url q) (max 25 limit)]"]
    by simp
next
  assume e: "primary_urls env q limit = []"
  show "fst (fetch_image_urls env query limit w) = Inr []
        \<or> (\<exists>e. e \<noteq> RequestException \<and> fst (fetch_image_urls env query limit w) = Inl e)"
    using fetch_fallback [OF assms(2) e, of w]
      read_api_nonpos [OF assms(1), of "api_get env (source_url q) (max 25 limit)"]
    by simp
qed

lemma primary_urls_env_page_0:
  "primary_urls env_page ''cats'' 0 = [JStr ''https://i.example/a.jpg'']"
  by (simp add: primary_urls_def primary_def env_page_def page_data_def entries_mixed_def
      entry_with_def pins_of_def and_then_def image_url_def)

theorem nonpositive_limit_result_witness:
  "(0::int) \<le> 0 \<and> quote cats = Inr ''cats'' \<and> primary_urls env_page ''cats'' 0 \<noteq> []
   \<and> fst (fetch_image_urls env_page cats 0 (fresh :: string world)) = Inr []
   \<and> api_calls fresh (snd (fetch_image_urls env_page cats 0 (fresh :: string world))) = 0"
  using nonpositive_limit_result [of 0 cats "''cats''" env_page "fresh :: string world"]
    quote_cats primary_urls_env_page_0 by simp

text \<open>
  Claim C2, as the specification states it, speaks of every query: the fallback call is made
  exactly once when the primary stage yields the empty list. For the query \<^verbatim>\<open>'\udcff'\<close>
  and no rendering capability (the primary stage yields nothing), \<^verbatim>\<open>quote\<close> raises while
  the parameters of the request are built: the exception leaves the resolver and no request
  to the API is made.
\<close>

theorem unencodable_query_makes_no_call:
  "\<not> html_session env_empty
   \<and> fst (fetch_image_urls env_empty lone_surrogate 5 (fresh :: string world))
       = Inl UnicodeEncodeError
   \<and> api_calls fresh (snd (fetch_image_urls env_empty lone_surrogate 5 (fresh :: string world))) = 0"
  using quote_lone_surrogate
  by (simp add: fetch_image_urls_def fallback_def env_empty_def api_calls_def added_def)

text \<open>
  Claim C2, amended: for every limit and every query that \<^verbatim>\<open>quote\<close> encodes, the requests
  to the API that a call adds to the trace are exactly one (for the \<^verbatim>\<open>source_url\<close> of the
  query and \<^verbatim>\<open>page_size = max(25, limit)\<close>) when stage 1 yields the empty list, and none
  when stage 1 yields a non-empty list, which is then returned at once, cut to the limit by
  \<^verbatim>\<open>urls[:limit]\<close>.
\<close>

theorem fallback_once_iff_primary_empty:
  assumes "quote query = Inr q"
  shows "filter is_api_request (added w (snd (fetch_image_urls env query limit w)))
           = (if primary_urls env q limit = [] then [ApiRequest (source_url q) (max 25 limit)]
              else [])
       \<and> api_calls w (snd (fetch_image_urls env query limit w))
           = (if primary_urls env q limit = [] then 1 else 0)
       \<and> (primary_urls env q limit \<noteq> [] \<longrightarrow>
            fst (fetch_image_urls env query limit w)
              = Inr (py_slice (primary_urls env q limit) limit))"
proof (cases "primary_urls env q limit = []")
  case True
  then show ?thesis
    using fetch_fallback [OF assms True, of w] by (simp add: api_calls_def added_def)
next
  case False
  then show ?thesis
    using fetch_primary [OF assms False, of w] by (simp add: api_calls_def added_def)
qed

lemma primary_urls_env_page_2:
  "primary_urls env_page ''cats'' 2
     = [JStr ''https://i.example/a.jpg'', JStr ''https://i.example/b.jpg'']"
  by (simp add: primary_urls_def primary_def env_page_def page_data_def entries_mixed_def
      entry_with_def pins_of_def and_then_def image_url_def)

lemma primary_urls_env_api: "primary_urls env_api q limit = []"
  by (simp add: primary_urls_def env_api_def)

theorem fallback_once_iff_primary_empty_witness:
  "quote cats = Inr ''cats''
   \<and> primary_urls env_page ''cats'' 2 \<noteq> []
   \<and> api_calls fresh (snd (fetch_image_urls env_page cats 2 (fresh :: string world))) = 0
   \<and> fst (fetch_image_urls env_page cats 2 (fresh :: string world))
       = Inr [JStr ''https://i.example/a.jpg'', JStr ''https://i.example/b.jpg'']
   \<and> primary_urls env_api ''cats'' 2 = []
   \<and> filter is_api_request (added fresh (snd (fetch_image_urls env_api cats 2 (fresh :: string world))))
       = [ApiRequest ''/search/pins/?q=cats'' 25]"
  using fallback_once_iff_primary_empty [OF quote_cats, of "fresh :: string world" env_page 2]
    fallback_once_iff_primary_empty [OF quote_cats, of "fresh :: string world" env_api 2]
    quote_cats primary_urls_env_page_2 primary_urls_env_api [of "''cats''" 2]
  by (simp add: py_slice_def source_url_def)

text \<open>
  Claim C3 says that the resolver never raises. Stage 1 catches every exception, stage 2
  only \<^verbatim>\<open>requests.RequestException\<close>: when the API answers 200 with the body
  \<^verbatim>\<open>{"resource_response": null}\<close>, the second \<^verbatim>\<open>.get\<close> is applied to \<^verbatim>\<open>None\<close> and the
  \<^verbatim>\<open>AttributeError\<close> leaves \<^verbatim>\<open>fetch_image_urls\<close>.
\<close>

theorem null_response_raises:
  "fst (fetch_image_urls env_null cats 5 (fresh :: string world)) = Inl AttributeError"
proof -
  have p: "primary_urls env_null ''cats'' 5 = []"
    by (simp add: primary_urls_def env_null_def)
  have "read_api (api_get env_null (source_url ''cats'') (max 25 5)) 5 [] = Inl AttributeError"
    by (simp add: env_null_def read_api_def raise_for_status_def results_of_def and_then_def
        api_handler_def)
  then show ?thesis
    using fetch_fallback [OF quote_cats p, of "fresh :: string world"] by simp
qed

section \<open>Entries without the URL\<close>

lemma image_url_missing_imp: "missing_url e \<longrightarrow> image_url e = Inr JNull"
  by (simp add: missing_url_def image_url_def and_then_def split: json.split option.split)

lemma image_url_missing: "missing_url e \<Longrightarrow> image_url e = Inr JNull"
  using image_url_missing_imp by blast

lemma image_url_well_formed_imp:
  "orig_url e = Some u \<longrightarrow> image_url e = Inr u \<and> truthy u"
  by (auto simp: orig_url_def image_url_def and_then_def split: json.split option.split)

lemma image_url_well_formed: "orig_url e = Some u \<Longrightarrow> image_url e = Inr u \<and> truthy u"
  using image_url_well_formed_imp by blast

lemma collect_entries:
  "\<forall>e\<in>set es. missing_url e \<or> well_formed e \<Longrightarrow>
   collect limit urls es =
     (urls @ take (max 1 (nat (limit - int (length urls)))) (List.map_filter orig_url es), None)"
proof (induction es arbitrary: urls)
  case Nil
  then show ?case by simp
next
  case (Cons e es)
  then have rest: "\<forall>e\<in>set es. missing_url e \<or> well_formed e" by simp
  show ?case
  proof (cases "orig_url e")
    case None
    then have "missing_url e" using Cons.prems by (simp add: well_formed_def)
    then have "image_url e = Inr JNull" by (rule image_url_missing)
    then show ?thesis using None Cons.IH [OF rest, of urls] by simp
  next
    case (Some u)
    then have iu: "image_url e = Inr u" and tu: "truthy u" using image_url_well_formed by auto
    show ?thesis
    proof (cases "limit \<le> int (length urls) + 1")
      case True
      then have "max 1 (nat (limit - int (length urls))) = 1" by simp
      then show ?thesis using True iu tu Some by simp
    next
      case False
      then have m: "max 1 (nat (limit - int (length urls))) = Suc (nat (limit - int (length urls) - 1))"
        and m': "max 1 (nat (limit - int (length (urls @ [u])))) = nat (limit - int (length urls) - 1)"
        by auto
      show ?thesis using False iu tu Some Cons.IH [OF rest, of "urls @ [u]"] m m'
        by (simp del: max.absorb1 max.absorb2 max.absorb3 max.absorb4)
    qed
  qed
qed

lemma slice_collected:
  "py_slice (take (max 1 (nat limit)) xs) limit = take (nat limit) xs"
proof (cases "1 \<le> limit")
  case True
  then have "max 1 (nat limit) = nat limit" by simp
  then show ?thesis using True by (simp add: py_slice_def)
next
  case False
  then have "max 1 (nat limit) = 1" "nat limit = 0" by simp_all
  moreover have "length (take 1 xs) \<le> 1" by simp
  ultimately show ?thesis using False py_slice_short [of limit "take 1 xs"] by simp
qed

text \<open>
  Entries that lack a key on the way to \<^verbatim>\<open>images.orig.url\<close> are skipped: over a payload of
  such entries and well-formed ones, the loop followed by \<^verbatim>\<open>urls[:limit]\<close> yields the
  candidate list of the specification.
\<close>

lemma absent_keys_are_skipped:
  assumes "\<forall>e\<in>set es. missing_url e \<or> well_formed e"
  shows "collect limit [] es = (take (max 1 (nat limit)) (List.map_filter orig_url es), None)"
    and "py_slice (fst (collect limit [] es)) limit = candidates limit es"
  using collect_entries [OF assms, of limit "[]"] slice_collected [of limit]
  by (simp_all add: candidates_def)

text \<open>
  Claim C7 says that entries missing \<^verbatim>\<open>images.orig.url\<close> are skipped without an effect on
  the well-formed entries. That holds for an absent key (\<open>absent_keys_are_skipped\<close>), whose
  default is an empty dict. A key that is present with the value \<^verbatim>\<open>null\<close> is returned as
  \<^verbatim>\<open>None\<close>, and the next \<^verbatim>\<open>.get\<close> raises \<^verbatim>\<open>AttributeError\<close>. In stage 1 the handler
  ends the loop: for a page whose pins are a well-formed entry, an entry with
  \<^verbatim>\<open>"images": null\<close> and a second well-formed entry, the resolver returns the first URL
  only, where the candidate list of the specification holds both.
\<close>

theorem null_images_drops_later_entries:
  "fst (fetch_image_urls env_page_null_images cats 5 (fresh :: string world))
     = Inr [JStr ''https://i.example/a.jpg'']
   \<and> candidates 5 entries_null_images
     = [JStr ''https://i.example/a.jpg'', JStr ''https://i.example/b.jpg'']"
proof
  have p: "primary_urls env_page_null_images ''cats'' 5 = [JStr ''https://i.example/a.jpg'']"
    by (simp add: primary_urls_def primary_def env_page_null_images_def page_data_def
        entries_null_images_def entry_with_def pins_of_def and_then_def image_url_def)
  then have ne: "primary_urls env_page_null_images ''cats'' 5 \<noteq> []" by simp
  show "fst (fetch_image_urls env_page_null_images cats 5 (fresh :: string world))
          = Inr [JStr ''https://i.example/a.jpg'']"
    using fetch_primary [OF quote_cats ne, of "fresh :: string world"] p
    by (simp add: py_slice_def)
  show "candidates 5 entries_null_images
          = [JStr ''https://i.example/a.jpg'', JStr ''https://i.example/b.jpg'']"
    by (simp add: candidates_def entries_null_images_def entry_with_def orig_url_def)
qed

section \<open>Properties of a single download\<close>






text \<open>
  Claim C4, as the specification states it, speaks of every backoff factor. With the
  answers 429, 429, 200, three retries and \<open>backoff_factor = -1\<close>, the first sleep is asked
  to last \<open>-1\<close> seconds: \<^verbatim>\<open>time.sleep\<close> raises \<^verbatim>\<open>ValueError\<close>, which leaves
  \<^verbatim>\<open>download_image\<close>.
\<close>

theorem negative_backoff_raises:
  "fst (download_image (machine busy_twice) ''u'' ''out/image_1.jpg'' 3 (- 1) fresh)
     = Inl ValueError"
  by (simp add: download_image_def upt_rec [of 0] numeral_3_eq_3 request_def Let_def
      machine_def busy_twice_def fresh_def backoff_delay_def time_sleep_def)

text \<open>
  Claim C4, amended: when the successive requests for a URL are answered 429, 429 and 200,
  \<open>max_retries \<ge> 3\<close>, the backoff factor is not negative, \<^verbatim>\<open>time.sleep\<close> accepts twice
  the backoff factor and the destination can be opened and written, \<^verbatim>\<open>download_image\<close>
  returns \<^verbatim>\<open>True\<close> after the third request, having slept exactly twice,
  \<open>backoff_factor * 2 ^ 0\<close> before the second request and \<open>backoff_factor * 2 ^ 1\<close> before
  the third, and having written the body of the third response to the destination path.
\<close>

theorem retry_after_two_429:
  assumes "3 \<le> max_retries"
   and "session sys url (hits w url) = GetResponse 429 b1"
   and "session sys url (hits w url + 1) = GetResponse 429 b2"
   and "session sys url (hits w url + 2) = GetResponse 200 b3"
   and "0 \<le> bf" and "bf * 2 \<le> sleep_max sys"
   and "dest \<noteq> []" and "disk sys dest = Stores"
  shows "download_image sys url dest max_retries bf w =
    (Inr True, w\<lparr>hits := (hits w)(url := hits w url + 3),
                  trace := trace w @ [Request url (GetResponse 429 b1), Sleep (bf * 2 ^ 0),
                                      Request url (GetResponse 429 b2), Sleep (bf * 2 ^ 1),
                                      Request url (GetResponse 200 b3), Write dest],
                  files := (files w)(dest \<mapsto> b3)\<rparr>)"
proof -
  from assms(1) have "3 \<le> nat max_retries" by simp
  then have l: "[0..<nat max_retries] = 0 # Suc 0 # Suc (Suc 0) # [3..<nat max_retries]"
    by (simp add: upt_rec [of 0] upt_rec [of "Suc 0"] upt_rec [of "Suc (Suc 0)"] numeral_3_eq_3)
  have s0: "\<And>v. time_sleep sys bf v = (None, v\<lparr>trace := trace v @ [Sleep bf]\<rparr>)"
    using assms(5,6) by (simp add: time_sleep_def)
  have s1: "\<And>v. time_sleep sys (bf * 2) v = (None, v\<lparr>trace := trace v @ [Sleep (bf * 2)]\<rparr>)"
    using assms(5,6) by (simp add: time_sleep_def)
  show ?thesis using l assms(2,3,4,7,8) s0 s1
    by (simp add: download_image_def request_def Let_def write_file_def backoff_delay_def
        numeral_3_eq_3)
qed

theorem retry_after_two_429_witness:
  "(3::int) \<le> 3
   \<and> session (machine busy_twice) ''u'' 0 = GetResponse 429 []
   \<and> session (machine busy_twice) ''u'' 1 = GetResponse 429 []
   \<and> session (machine busy_twice) ''u'' 2 = GetResponse 200 ''JPEG''
   \<and> (0::real) \<le> 1 \<and> 1 * 2 \<le> sleep_max (machine busy_twice)
   \<and> ''out/image_1.jpg'' \<noteq> [] \<and> disk (machine busy_twice) ''out/image_1.jpg'' = Stores
   \<and> download_image (machine busy_twice) ''u'' ''out/image_1.jpg'' 3 1 fresh =
      (Inr True, \<lparr>hits = (\<lambda>u. 0)(''u'' := 3),
                  trace = [Request ''u'' (GetResponse 429 []), Sleep 1,
                           Request ''u'' (GetResponse 429 []), Sleep 2,
                           Request ''u'' (GetResponse 200 ''JPEG''), Write ''out/image_1.jpg''],
                  files = [''out/image_1.jpg'' \<mapsto> ''JPEG'']\<rparr>)"
  using retry_after_two_429 [of 3 "machine busy_twice" "''u''" fresh "[]" "[]" "''JPEG''" 1
      "''out/image_1.jpg''"]
  by (simp add: busy_twice_def fresh_def machine_def)

text \<open>
  Claim C5: when the request for a URL is answered with a status other than 200, 403 and
  429, \<^verbatim>\<open>download_image\<close> (called with \<open>max_retries > 0\<close>, so that a request is made)
  returns \<^verbatim>\<open>False\<close> after exactly one request: the only effect is that request, there is
  no sleep and no file is written.
\<close>

theorem other_status_is_permanent:
  assumes "0 < max_retries"
   and "session sys url (hits w url) = GetResponse status content"
   and "status \<noteq> 200" and "status \<noteq> 403" and "status \<noteq> 429"
  shows "download_image sys url dest max_retries bf w =
    (Inr False, w\<lparr>hits := (hits w)(url := hits w url + 1),
                   trace := trace w @ [Request url (GetResponse status content)]\<rparr>)"
proof -
  from assms(1) obtain rest where "[0..<nat max_retries] = 0 # rest"
    by (cases "[0..<nat max_retries]") (auto simp: upt_eq_Cons_conv)
  then show ?thesis using assms(2-) by (simp add: download_image_def request_def Let_def)
qed

theorem other_status_is_permanent_witness:
  "(0::int) < 3 \<and> session (machine not_found) ''u'' 0 = GetResponse 404 []
   \<and> download_image (machine not_found) ''u'' ''out/image_1.jpg'' 3 1 fresh =
      (Inr False, \<lparr>hits = (\<lambda>u. 0)(''u'' := 1),
                   trace = [Request ''u'' (GetResponse 404 [])],
                   files = Map.empty\<rparr>)"
  using other_status_is_permanent [of 3 "machine not_found" "''u''" fresh 404 "[]"
      "''out/image_1.jpg''" 1]
  by (simp add: not_found_def fresh_def machine_def)

text \<open>
  Claim C10: called with \<open>max_retries \<le> 0\<close>, \<^verbatim>\<open>download_image\<close> returns \<^verbatim>\<open>False\<close> at
  once and the world is unchanged: no request, no sleep, no file written.
\<close>

theorem no_attempt_without_retries:
  "max_retries \<le> 0 \<Longrightarrow> download_image sys url dest max_retries bf w = (Inr False, w)"
  by (simp add: download_image_def)

theorem no_attempt_without_retries_witness:
  "(0::int) \<le> 0
   \<and> download_image (machine busy_twice) ''u'' ''out/image_1.jpg'' 0 1 fresh = (Inr False, fresh)"
  using no_attempt_without_retries [of 0 "machine busy_twice" "''u''" "''out/image_1.jpg''" 1 fresh]
  by simp

section \<open>Counting the successes\<close>




lemma decimal_nonempty: "decimal n \<noteq> []"
  by (subst decimal.simps) simp







section \<open>Running the downloads twice\<close>









section \<open>The exit code\<close>








end
